theory Spec2Isabelle
  imports Main "HOL-Library.Sublist"
begin

section \<open>GitHub Pages explorer: the component of \<open>src/github-pages.tsx\<close>\<close>

text \<open>
  The component \<open>GitHubPagesGrid\<close> keeps six pieces of React state, fetches the
  repositories of a user, keeps those with GitHub Pages enabled, filters them by a search
  term and renders one of four regions. The model below follows the source function by
  function. A JavaScript string is a list of code units; the model uses \<open>string\<close>
  (a \<open>char list\<close>), so every code unit is below 256: the Latin-1 range of UTF-16.
  Only the text filter looks at what lies above that range, where the platform's
  \<open>toLowerCase\<close> behaves differently; it is also given on lists of wider code units.
\<close>

subsection \<open>String primitives of the platform\<close>

text \<open>
  \<open>String.prototype.toLowerCase\<close> on the Latin-1 range: the capital letters
  \<open>A\<close>..\<open>Z\<close> (65..90), \<open>U+00C0\<close>..\<open>U+00D6\<close> (192..214) and
  \<open>U+00D8\<close>..\<open>U+00DE\<close> (216..222) move up by 32; every other code unit stays.
  On this range, and only there, the function is a map over the single code units; the
  function on wider code units follows further down.
\<close>

definition isUpperCase :: "char \<Rightarrow> bool" where
  "isUpperCase c =
     (let n = (of_char c :: nat)
      in (65 \<le> n \<and> n \<le> 90) \<or> (192 \<le> n \<and> n \<le> 214) \<or> (216 \<le> n \<and> n \<le> 222))"

definition toLowerChar :: "char \<Rightarrow> char" where
  "toLowerChar c = (if isUpperCase c then char_of ((of_char c :: nat) + 32) else c)"

definition toLowerCase :: "string \<Rightarrow> string" where
  "toLowerCase s = map toLowerChar s"

text \<open>
  \<open>String.prototype.startsWith\<close> and \<open>String.prototype.includes\<close>: the search
  string is compared at position 0, respectively at every position from left to right.
\<close>

definition startsWith :: "'a list \<Rightarrow> 'a list \<Rightarrow> bool" where
  "startsWith s t = (take (length t) s = t)"

fun includes_js :: "'a list \<Rightarrow> 'a list \<Rightarrow> bool" where
  "includes_js [] t = (t = [])"
| "includes_js (c # cs) t = (startsWith (c # cs) t \<or> includes_js cs t)"

text \<open>
  \<open>String.prototype.trim\<close> removes white space and line terminators from both ends.
  Below 256 these are TAB, LF, VT, FF, CR, SPACE and NBSP.
\<close>

definition isWhiteSpace :: "char \<Rightarrow> bool" where
  "isWhiteSpace c = (of_char c \<in> {9, 10, 11, 12, 13, 32, 160 :: nat})"

definition trim :: "string \<Rightarrow> string" where
  "trim s = rev (dropWhile isWhiteSpace (rev (dropWhile isWhiteSpace s)))"

text \<open>The decimal text of a non-negative integer, as a template literal prints it.\<close>

fun showNat :: "nat \<Rightarrow> string" where
  "showNat n =
     (if n < 10 then [char_of (48 + n)]
      else showNat (n div 10) @ [char_of (48 + n mod 10)])"

declare showNat.simps [simp del]

subsection \<open>The repository summary\<close>

text \<open>
  \<open>interface GitHubRepo\<close>. A field of type \<open>string | null\<close> is a \<open>string option\<close>,
  with \<open>None\<close> for \<open>null\<close>. The field \<open>id\<close> is written \<open>id_field\<close>.
\<close>

record GitHubRepo =
  id_field :: int
  name :: string
  full_name :: string
  description :: "string option"
  html_url :: string
  homepage :: "string option"
  has_pages :: bool
  language :: "string option"
  stargazers_count :: int
  updated_at :: string

subsection \<open>The text filter\<close>

text \<open>
  The callback of \<open>repos.filter\<close> in the second effect, on the name and the
  description of an entry. The right operand of \<open>||\<close> is \<open>repo.description && ...\<close>:
  it is falsy when the description is \<open>null\<close> and also when it is the empty string,
  since \<open>""\<close> is falsy in JavaScript. The lower-casing function is an argument, so that
  the one callback runs on Latin-1 texts and on wider ones.
\<close>

definition matchesText :: "('a list \<Rightarrow> 'a list) \<Rightarrow> 'a list \<Rightarrow> 'a list \<Rightarrow> 'a list option \<Rightarrow> bool" where
  "matchesText lower searchTerm nm descr =
     (includes_js (lower nm) (lower searchTerm) \<or>
      (case descr of
         None \<Rightarrow> False
       | Some d \<Rightarrow> d \<noteq> [] \<and> includes_js (lower d) (lower searchTerm)))"

definition matchesSearch :: "string \<Rightarrow> GitHubRepo \<Rightarrow> bool" where
  "matchesSearch searchTerm repo =
     matchesText toLowerCase searchTerm (name repo) (description repo)"

definition filterRepos :: "GitHubRepo list \<Rightarrow> string \<Rightarrow> GitHubRepo list" where
  "filterRepos repos searchTerm = filter (matchesSearch searchTerm) repos"




subsection \<open>Texts beyond Latin-1\<close>








subsection \<open>The state of the component\<close>

text \<open>The six \<open>useState\<close> cells, with their initial values.\<close>

record state =
  repos :: "GitHubRepo list"
  filteredRepos :: "GitHubRepo list"
  loading :: bool
  error :: "string option"
  searchTerm :: string
  username :: string

definition initialState :: state where
  "initialState =
     \<lparr>repos = [], filteredRepos = [], loading = True, error = None,
      searchTerm = [], username = ''octocat''\<rparr>"

text \<open>The \<open>onChange\<close> handlers of the two input fields.\<close>

definition setUsername :: "string \<Rightarrow> state \<Rightarrow> state" where
  "setUsername v st = st\<lparr>username := v\<rparr>"

definition setSearchTerm :: "string \<Rightarrow> state \<Rightarrow> state" where
  "setSearchTerm v st = st\<lparr>searchTerm := v\<rparr>"

text \<open>
  The second effect: after a render in which \<open>repos\<close> or \<open>searchTerm\<close> changed it
  stores the filtered list.
\<close>

definition filterEffect :: "state \<Rightarrow> state" where
  "filterEffect st = st\<lparr>filteredRepos := filterRepos (repos st) (searchTerm st)\<rparr>"

subsection \<open>The fetch\<close>

text \<open>
  What a \<open>catch\<close> clause can receive: an \<open>Error\<close> object with its message, or any
  other thrown value.
\<close>

datatype thrown = ErrorObject string | OtherValue

text \<open>
  What \<open>fetch\<close> and \<open>response.json()\<close> can deliver. \<open>JsonThrows\<close> stands for a
  body that does not parse and for a parsed value on which line 82 throws (a value that
  is not an array has no \<open>filter\<close>): both reach the \<open>catch\<close> clause with a thrown value.
\<close>

datatype jsonResult = JsonArray "GitHubRepo list" | JsonThrows thrown

record response =
  ok :: bool
  status :: nat
  json :: jsonResult

datatype fetchResult = Rejects thrown | Resolves response

record request =
  url :: string
  headers :: "string \<rightharpoonup> string"

record effects =
  sent :: "request option"
  warned :: "string option"

definition noEffects :: effects where
  "noEffects = \<lparr>sent = None, warned = None\<rparr>"

text \<open>
  The test \<open>token && token.trim()\<close> on \<open>process.env.NEXT_PUBLIC_GITHUB_TOKEN\<close>;
  an unset variable is \<open>None\<close>.
\<close>

definition hasCredential :: "string option \<Rightarrow> bool" where
  "hasCredential token =
     (case token of None \<Rightarrow> False | Some t \<Rightarrow> t \<noteq> [] \<and> trim t \<noteq> [])"

definition buildHeaders :: "string option \<Rightarrow> (string \<rightharpoonup> string)" where
  "buildHeaders token =
     (case token of
        None \<Rightarrow> Map.empty
      | Some t \<Rightarrow>
          if t \<noteq> [] \<and> trim t \<noteq> [] then [''Authorization'' \<mapsto> ''token '' @ trim t]
          else Map.empty)"

definition buildWarning :: "string option \<Rightarrow> string option" where
  "buildWarning token =
     (if hasCredential token then None
      else Some ''NEXT_PUBLIC_GITHUB_TOKEN not found. Making unauthenticated request.'')"

definition buildRequest :: "string \<Rightarrow> string option \<Rightarrow> request" where
  "buildRequest user token =
     \<lparr>url = ''https://api.github.com/users/'' @ user @ ''/repos?per_page=100'',
      headers = buildHeaders token\<rparr>"

text \<open>The three messages of lines 67 to 76, for a response status.\<close>

definition tokenRejectedMessage :: "nat \<Rightarrow> string" where
  "tokenRejectedMessage n =
     ''Failed to fetch repositories: '' @ showNat n @
     ''. This might be due to an invalid or expired GitHub token, or insufficient permissions. Please check your NEXT_PUBLIC_GITHUB_TOKEN.''"

definition rateLimitMessage :: "nat \<Rightarrow> string" where
  "rateLimitMessage n =
     ''Failed to fetch repositories: '' @ showNat n @
     ''. This is likely due to rate limiting. Please set NEXT_PUBLIC_GITHUB_TOKEN in your .env.local file to increase the rate limit.''"

definition statusMessage :: "nat \<Rightarrow> string" where
  "statusMessage n = ''Failed to fetch repositories: '' @ showNat n"

text \<open>
  The body of the \<open>try\<close> block after the request is sent: \<open>Inl\<close> is the thrown value
  that reaches \<open>catch\<close>, \<open>Inr\<close> the list handed to \<open>setRepos\<close>.
\<close>

definition tryBlock :: "string option \<Rightarrow> fetchResult \<Rightarrow> thrown + GitHubRepo list" where
  "tryBlock token result =
     (case result of
        Rejects e \<Rightarrow> Inl e
      | Resolves response \<Rightarrow>
          if \<not> ok response then
            (if status response = 403 then
               (if hasCredential token
                then Inl (ErrorObject (tokenRejectedMessage (status response)))
                else Inl (ErrorObject (rateLimitMessage (status response))))
             else Inl (ErrorObject (statusMessage (status response))))
          else
            (case json response of
               JsonThrows e \<Rightarrow> Inl e
             | JsonArray allRepos \<Rightarrow> Inr (filter has_pages allRepos)))"

definition catchMessage :: "thrown \<Rightarrow> string" where
  "catchMessage err = (case err of ErrorObject m \<Rightarrow> m | OtherValue \<Rightarrow> ''An error occurred'')"

text \<open>
  \<open>fetchGitHubPages\<close> in two parts. \<open>fetchStart\<close> is the code before the \<open>await\<close>:
  the two setters that run at once. \<open>fetchSettle\<close> is the code after it: \<open>setRepos\<close>
  or \<open>setError\<close>, then \<open>setLoading(false)\<close> of the \<open>finally\<close> clause.
  \<open>fetchGitHubPages\<close> runs both on the same state, that is, with no other event
  between the start of the request and its result; it returns the new state and what
  was sent and logged. A blank username returns at line 47.
\<close>

definition fetchStart :: "state \<Rightarrow> state" where
  "fetchStart st = st\<lparr>loading := True, error := None\<rparr>"

definition fetchSettle :: "string option \<Rightarrow> fetchResult \<Rightarrow> state \<Rightarrow> state" where
  "fetchSettle token result st =
     (case tryBlock token result of
        Inr pagesRepos \<Rightarrow> st\<lparr>repos := pagesRepos\<rparr>
      | Inl err \<Rightarrow> st\<lparr>error := Some (catchMessage err)\<rparr>)
     \<lparr>loading := False\<rparr>"

definition fetchGitHubPages :: "string option \<Rightarrow> fetchResult \<Rightarrow> state \<Rightarrow> state \<times> effects" where
  "fetchGitHubPages token result st =
     (if trim (username st) = [] then (st, noEffects)
      else
        (fetchSettle token result (fetchStart st),
         \<lparr>sent = Some (buildRequest (username st) token), warned = buildWarning token\<rparr>))"

text \<open>
  The failures the specification names: a network error, a non-success status, a
  malformed response.
\<close>

definition failingFetch :: "fetchResult \<Rightarrow> bool" where
  "failingFetch result =
     (case result of
        Rejects e \<Rightarrow> True
      | Resolves response \<Rightarrow>
          \<not> ok response \<or> (case json response of JsonThrows e \<Rightarrow> True | JsonArray rs \<Rightarrow> False))"

subsection \<open>Rendering\<close>

definition truncateDescription :: "string option \<Rightarrow> nat \<Rightarrow> string" where
  "truncateDescription descr maxLength =
     (case descr of
        None \<Rightarrow> ''No description available''
      | Some d \<Rightarrow>
          if d = [] then ''No description available''
          else if length d > maxLength then take maxLength d @ ''...''
          else d)"

definition getPageUrl :: "string \<Rightarrow> GitHubRepo \<Rightarrow> string" where
  "getPageUrl user repo =
     (case homepage repo of
        None \<Rightarrow> ''https://'' @ user @ ''.github.io/'' @ name repo
      | Some h \<Rightarrow>
          if h \<noteq> [] \<and> startsWith h ''http'' then h
          else ''https://'' @ user @ ''.github.io/'' @ name repo)"

text \<open>
  One card of the grid. \<open>formatDate\<close> depends on the platform's locale data and is a
  parameter; \<open>truncateDescription\<close> is called with its default \<open>maxLength\<close> of 120.
\<close>

record card =
  title :: string
  descriptionText :: string
  languageBadge :: "string option"
  stars :: int
  siteHref :: string
  repositoryHref :: string
  updatedText :: string

definition renderCard :: "(string \<Rightarrow> string) \<Rightarrow> string \<Rightarrow> GitHubRepo \<Rightarrow> card" where
  "renderCard formatDate user repo =
     \<lparr>title = name repo,
      descriptionText = truncateDescription (description repo) 120,
      languageBadge = (case language repo of None \<Rightarrow> None | Some l \<Rightarrow> if l = [] then None else Some l),
      stars = stargazers_count repo,
      siteHref = getPageUrl user repo,
      repositoryHref = html_url repo,
      updatedText = ''Updated '' @ formatDate (updated_at repo)\<rparr>"

text \<open>
  The region chosen by the conditional chain of lines 156 to 238: the placeholder grid of
  six cards, the count line with the card grid, the empty-state text, or \<open>null\<close>.
\<close>

datatype region = Skeleton nat | Grid string "card list" | EmptyState string | Nothing

definition countText :: "nat \<Rightarrow> string" where
  "countText n =
     ''Found '' @ showNat n @ '' GitHub Pages '' @ (if n = 1 then ''repository'' else ''repositories'')"

definition emptyStateMessage :: "string \<Rightarrow> string" where
  "emptyStateMessage user =
     ''No repositories with GitHub Pages were found for user '' @ [CHR 0x22] @ user @ [CHR 0x22] @
     ''. Make sure you have repositories with GitHub Pages enabled.''"

definition mainRegion :: "(string \<Rightarrow> string) \<Rightarrow> state \<Rightarrow> region" where
  "mainRegion formatDate st =
     (if loading st then Skeleton 6
      else if length (filteredRepos st) > 0 then
        Grid (countText (length (filteredRepos st)))
             (map (renderCard formatDate (username st)) (filteredRepos st))
      else if \<not> loading st \<and> length (repos st) = 0 \<and> username st \<noteq> [] then
        EmptyState (emptyStateMessage (username st))
      else Nothing)"

definition errorBanner :: "state \<Rightarrow> string option" where
  "errorBanner st =
     (case error st of None \<Rightarrow> None | Some e \<Rightarrow> if e = [] then None else Some (''Error: '' @ e))"

definition searchInputShown :: "state \<Rightarrow> bool" where
  "searchInputShown st = (length (repos st) > 0)"

subsection \<open>Sample values\<close>

text \<open>Two repositories and a state, used where a property is run on concrete data.\<close>

definition sampleBlog :: GitHubRepo where
  "sampleBlog =
     \<lparr>id_field = 1, name = ''blog'', full_name = ''octocat/blog'',
      description = Some ''My Blog'', html_url = ''https://github.com/octocat/blog'',
      homepage = None, has_pages = True, language = Some ''HTML'',
      stargazers_count = 3, updated_at = ''2024-01-01T00:00:00Z''\<rparr>"

definition sampleTool :: GitHubRepo where
  "sampleTool =
     \<lparr>id_field = 2, name = ''tool'', full_name = ''octocat/tool'',
      description = None, html_url = ''https://github.com/octocat/tool'',
      homepage = Some ''https://example.com'', has_pages = False, language = None,
      stargazers_count = 0, updated_at = ''2024-02-01T00:00:00Z''\<rparr>"

definition sampleLoaded :: state where
  "sampleLoaded =
     \<lparr>repos = [sampleBlog], filteredRepos = [sampleBlog], loading = False, error = None,
      searchTerm = [], username = ''octocat''\<rparr>"

subsection \<open>Facts about the string primitives\<close>

lemma startsWith_prefix: "startsWith s t \<longleftrightarrow> prefix t s"
  unfolding startsWith_def
  by (metis prefix_def append_eq_conv_conj take_is_prefix)

lemma includes_sublist: "includes_js s t \<longleftrightarrow> sublist t s"
  by (induction s) (simp_all add: sublist_Cons_right startsWith_prefix)

lemma includes_Nil_right: "includes_js s []"
  by (simp add: includes_sublist)










subsection \<open>Facts about blank strings and decimal text\<close>

lemma trim_Nil_iff: "trim s = [] \<longleftrightarrow> list_all isWhiteSpace s"
proof
  assume "trim s = []"
  then have all: "\<forall>c \<in> set (dropWhile isWhiteSpace s). isWhiteSpace c"
    by (simp add: trim_def dropWhile_eq_Nil_conv)
  have "dropWhile isWhiteSpace s = []"
  proof (rule ccontr)
    assume ne: "dropWhile isWhiteSpace s \<noteq> []"
    then have "\<not> isWhiteSpace (hd (dropWhile isWhiteSpace s))"
      by (rule hd_dropWhile)
    moreover from ne have "hd (dropWhile isWhiteSpace s) \<in> set (dropWhile isWhiteSpace s)"
      by simp
    ultimately show False
      using all by blast
  qed
  then show "list_all isWhiteSpace s"
    by (simp add: dropWhile_eq_Nil_conv list_all_iff)
next
  assume "list_all isWhiteSpace s"
  then have d: "dropWhile isWhiteSpace s = []"
    by (simp add: dropWhile_eq_Nil_conv list_all_iff)
  show "trim s = []"
    unfolding trim_def d by simp
qed

lemma hasCredential_iff:
  "hasCredential token \<longleftrightarrow> (\<exists>t. token = Some t \<and> \<not> list_all isWhiteSpace t)"
  by (cases token) (auto simp: hasCredential_def trim_Nil_iff)

lemma trim_octocat: "trim ''octocat'' = ''octocat''"
  by (simp add: trim_def isWhiteSpace_def)

lemma trim_ghp: "trim ''ghp_1'' = ''ghp_1''"
  by (simp add: trim_def isWhiteSpace_def)

lemma showNat_403: "showNat 403 = ''403''"
  by code_simp

lemma showNat_500: "showNat 500 = ''500''"
  by code_simp

subsection \<open>Facts about the fetch\<close>

lemma fetch_runs:
  "trim (username st) \<noteq> [] \<Longrightarrow>
   fetchGitHubPages token result st =
     (fetchSettle token result (fetchStart st),
      \<lparr>sent = Some (buildRequest (username st) token), warned = buildWarning token\<rparr>)"
  by (simp add: fetchGitHubPages_def)

lemma fetchSettle_success:
  "tryBlock token result = Inr rs \<Longrightarrow>
   fetchSettle token result (fetchStart st) = st\<lparr>repos := rs, loading := False, error := None\<rparr>"
  by (simp add: fetchSettle_def fetchStart_def)

lemma fetchSettle_failure:
  "tryBlock token result = Inl e \<Longrightarrow>
   fetchSettle token result (fetchStart st) = st\<lparr>error := Some (catchMessage e), loading := False\<rparr>"
  by (simp add: fetchSettle_def fetchStart_def)

lemma tryBlock_success:
  "ok response \<Longrightarrow> json response = JsonArray allRepos \<Longrightarrow>
   tryBlock token (Resolves response) = Inr (filter has_pages allRepos)"
  by (simp add: tryBlock_def)

lemma tryBlock_failing: "failingFetch result \<Longrightarrow> \<exists>e. tryBlock token result = Inl e"
  by (auto simp: failingFetch_def tryBlock_def split: fetchResult.splits jsonResult.splits)

lemma fetchSettle_any_success:
  "tryBlock token result = Inr rs \<Longrightarrow>
   fetchSettle token result st = st\<lparr>repos := rs, loading := False\<rparr>"
  by (simp add: fetchSettle_def)

lemma fetchSettle_any_failure:
  "tryBlock token result = Inl e \<Longrightarrow>
   fetchSettle token result st = st\<lparr>error := Some (catchMessage e), loading := False\<rparr>"
  by (simp add: fetchSettle_def)

lemma trim_nonblank_nonempty: "trim s \<noteq> [] \<Longrightarrow> s \<noteq> []"
  by (auto simp: trim_def)

lemma filterRepos_empty_term: "filterRepos rs [] = rs"
  by (simp add: filterRepos_def matchesSearch_def matchesText_def toLowerCase_def includes_Nil_right)

subsection \<open>Facts about the rendered text and the sample values\<close>

lemma sublist_emptyStateMessage: "sublist user (emptyStateMessage user)"
proof -
  have "emptyStateMessage user =
        (''No repositories with GitHub Pages were found for user '' @ [CHR 0x22]) @ user @
        ([CHR 0x22] @ ''. Make sure you have repositories with GitHub Pages enabled.'')"
    by (simp add: emptyStateMessage_def)
  then show ?thesis
    unfolding sublist_def by blast
qed

text \<open>
  The sample state is the one the component reaches from its initial state by the first
  fetch, when the response lists the two sample repositories.
\<close>

lemma sampleLoaded_reached:
  "filterEffect (fst (fetchGitHubPages None
     (Resolves \<lparr>ok = True, status = 200, json = JsonArray [sampleTool, sampleBlog]\<rparr>)
     initialState)) = sampleLoaded"
  by (simp add: fetchGitHubPages_def initialState_def trim_octocat fetchSettle_def fetchStart_def
      tryBlock_def filterEffect_def sampleLoaded_def filterRepos_empty_term sampleTool_def
      sampleBlog_def)

lemma not_includes_octocat: "\<not> includes_js (emptyStateMessage ''octokit'') ''octocat''"
  by (simp add: emptyStateMessage_def startsWith_def)

lemma filterRepos_sampleBlog_zzz: "filterRepos [sampleBlog] ''zzz'' = []"
  by (simp add: filterRepos_def matchesSearch_def matchesText_def sampleBlog_def toLowerCase_def toLowerChar_def
      isUpperCase_def startsWith_def)

subsection \<open>Facts about texts beyond Latin-1\<close>










section \<open>The claims\<close>




text \<open>
  C2. When the response is a success carrying a list of repositories, the fetch stores
  exactly the entries of that list whose \<open>has_pages\<close> is true, in their order, whatever
  was stored before. For a username that is not blank the new state is the old one with
  \<open>repos\<close> replaced, \<open>loading\<close> false and \<open>error\<close> cleared, and the effect then
  derives the displayed list from the new \<open>repos\<close>. The same list is stored when the
  result arrives in any other state \<open>st'\<close>.
\<close>

theorem fetch_success_stores_pages_repos:
  assumes "trim (username st) \<noteq> []" and "ok response" and "json response = JsonArray allRepos"
  shows "fst (fetchGitHubPages token (Resolves response) st) =
           st\<lparr>repos := filter has_pages allRepos, loading := False, error := None\<rparr> \<and>
         repos (fst (fetchGitHubPages token (Resolves response) st)) = filter has_pages allRepos \<and>
         filteredRepos (filterEffect (fst (fetchGitHubPages token (Resolves response) st))) =
           filterRepos (filter has_pages allRepos) (searchTerm st) \<and>
         repos (fetchSettle token (Resolves response) st') = filter has_pages allRepos"
proof -
  have t: "tryBlock token (Resolves response) = Inr (filter has_pages allRepos)"
    using assms(2,3) by (rule tryBlock_success)
  have "fst (fetchGitHubPages token (Resolves response) st) =
        st\<lparr>repos := filter has_pages allRepos, loading := False, error := None\<rparr>"
    using assms(1) by (simp add: fetch_runs fetchSettle_success [OF t])
  moreover have "repos (fetchSettle token (Resolves response) st') = filter has_pages allRepos"
    by (simp add: fetchSettle_any_success [OF t])
  ultimately show ?thesis
    by (simp add: filterEffect_def)
qed

theorem fetch_success_stores_pages_repos_witness:
  "repos (fst (fetchGitHubPages None
      (Resolves \<lparr>ok = True, status = 200, json = JsonArray [sampleTool, sampleBlog]\<rparr>)
      (initialState\<lparr>repos := [sampleTool]\<rparr>))) = [sampleBlog]"
proof -
  have u: "trim (username (initialState\<lparr>repos := [sampleTool]\<rparr>)) \<noteq> []"
    by (simp add: initialState_def trim_octocat)
  show ?thesis
    using fetch_success_stores_pages_repos
      [OF u, of "\<lparr>ok = True, status = 200, json = JsonArray [sampleTool, sampleBlog]\<rparr>"
        "[sampleTool, sampleBlog]" None]
    by (simp add: sampleBlog_def sampleTool_def)
qed

text \<open>
  C3. When the username is not blank and the response is not a success, the fetch ends
  with an error message, which is one of three: for status 403 with a credential (a token
  that is set and does not consist of white space only) the message about an invalid or
  expired token; for status 403 without one the message about rate limiting; for every
  other status \<open>N\<close> the text \<open>Failed to fetch repositories: N\<close>.
\<close>

theorem fetch_error_classification:
  assumes "trim (username st) \<noteq> []" and "\<not> ok response"
  shows "error (fst (fetchGitHubPages token (Resolves response) st)) =
     Some (if status response = 403 \<and> (\<exists>t. token = Some t \<and> \<not> list_all isWhiteSpace t) then
             ''Failed to fetch repositories: 403. This might be due to an invalid or expired GitHub token, or insufficient permissions. Please check your NEXT_PUBLIC_GITHUB_TOKEN.''
           else if status response = 403 then
             ''Failed to fetch repositories: 403. This is likely due to rate limiting. Please set NEXT_PUBLIC_GITHUB_TOKEN in your .env.local file to increase the rate limit.''
           else ''Failed to fetch repositories: '' @ showNat (status response))"
proof -
  have "tryBlock token (Resolves response) =
        Inl (ErrorObject
          (if status response = 403 \<and> hasCredential token then tokenRejectedMessage 403
           else if status response = 403 then rateLimitMessage 403
           else statusMessage (status response)))"
    using assms(2) by (simp add: tryBlock_def)
  then show ?thesis
    using assms(1)
    by (simp add: fetch_runs fetchSettle_failure catchMessage_def tokenRejectedMessage_def
        rateLimitMessage_def statusMessage_def showNat_403 hasCredential_iff)
qed

theorem fetch_error_classification_witness:
  "error (fst (fetchGitHubPages (Some ''ghp_1'')
      (Resolves \<lparr>ok = False, status = 403, json = JsonArray []\<rparr>) sampleLoaded)) =
     Some ''Failed to fetch repositories: 403. This might be due to an invalid or expired GitHub token, or insufficient permissions. Please check your NEXT_PUBLIC_GITHUB_TOKEN.'' \<and>
   error (fst (fetchGitHubPages None
      (Resolves \<lparr>ok = False, status = 403, json = JsonArray []\<rparr>) sampleLoaded)) =
     Some ''Failed to fetch repositories: 403. This is likely due to rate limiting. Please set NEXT_PUBLIC_GITHUB_TOKEN in your .env.local file to increase the rate limit.'' \<and>
   error (fst (fetchGitHubPages (Some ''ghp_1'')
      (Resolves \<lparr>ok = False, status = 500, json = JsonArray []\<rparr>) sampleLoaded)) =
     Some ''Failed to fetch repositories: 500''"
proof -
  have u: "trim (username sampleLoaded) \<noteq> []"
    by (simp add: sampleLoaded_def trim_octocat)
  have k: "\<not> ok \<lparr>ok = False, status = n, json = JsonArray []\<rparr>" for n
    by simp
  show ?thesis
    using fetch_error_classification [OF u k, of "Some ''ghp_1''" 403]
      fetch_error_classification [OF u k, of None 403]
      fetch_error_classification [OF u k, of "Some ''ghp_1''" 500]
    by (simp add: showNat_500 isWhiteSpace_def)
qed

text \<open>
  C4. The site link of an entry is its homepage when the homepage is present and starts
  with \<open>http\<close>, and \<open>https://<username>.github.io/<name>\<close> otherwise; the card
  carries this link and, as repository link, the entry's \<open>html_url\<close> unchanged. The
  homepage \<open>https://example.com\<close> gives that link; no homepage, name \<open>blog\<close> and
  username \<open>octocat\<close> give \<open>https://octocat.github.io/blog\<close>.
\<close>

theorem getPageUrl_spec:
  "getPageUrl user repo =
     (case homepage repo of
        Some h \<Rightarrow> if prefix ''http'' h then h else ''https://'' @ user @ ''.github.io/'' @ name repo
      | None \<Rightarrow> ''https://'' @ user @ ''.github.io/'' @ name repo) \<and>
   siteHref (renderCard formatDate user repo) = getPageUrl user repo \<and>
   repositoryHref (renderCard formatDate user repo) = html_url repo \<and>
   getPageUrl user (repo\<lparr>homepage := Some ''https://example.com''\<rparr>) = ''https://example.com'' \<and>
   getPageUrl ''octocat'' (repo\<lparr>homepage := None, name := ''blog''\<rparr>) = ''https://octocat.github.io/blog''"
proof -
  have "h \<noteq> [] \<and> startsWith h ''http'' \<longleftrightarrow> prefix ''http'' h" for h
    by (auto simp: startsWith_prefix)
  then show ?thesis
    by (simp add: getPageUrl_def renderCard_def startsWith_def split: option.split)
qed

text \<open>
  C5, as the code has it. The claim says that every description of at most 120
  characters is returned unchanged; the empty description has length 0 and is replaced by
  the placeholder, because \<open>!description\<close> holds for the empty string as for \<open>null\<close>.
\<close>

theorem truncateDescription_empty_counterexample:
  "length ([] :: string) \<le> 120 \<and>
   truncateDescription (Some []) 120 = ''No description available'' \<and>
   truncateDescription (Some []) 120 \<noteq> []"
  by (simp add: truncateDescription_def)

text \<open>
  C5, amended. The truncation returns the placeholder text when the description is
  \<open>null\<close> or empty, the description unchanged when it is not empty and has at most 120
  characters, and its first 120 characters followed by \<open>...\<close> when it is longer.
\<close>

theorem truncateDescription_spec:
  "truncateDescription None 120 = ''No description available'' \<and>
   truncateDescription (Some []) 120 = ''No description available'' \<and>
   (d \<noteq> [] \<and> length d \<le> 120 \<longrightarrow> truncateDescription (Some d) 120 = d) \<and>
   (120 < length d \<longrightarrow> truncateDescription (Some d) 120 = take 120 d @ ''...'')"
  by (auto simp: truncateDescription_def)

theorem truncateDescription_spec_witness:
  "truncateDescription (Some (replicate 50 CHR ''a'')) 120 = replicate 50 CHR ''a'' \<and>
   truncateDescription (Some (replicate 130 CHR ''a'')) 120 = replicate 120 CHR ''a'' @ ''...''"
  using truncateDescription_spec [of "replicate 50 CHR ''a''"]
    truncateDescription_spec [of "replicate 130 CHR ''a''"]
  by simp

text \<open>
  C6. When the username is not blank and the fetch fails (the request is rejected, the
  response is not a success, or its body cannot be used), the state after the fetch is
  the state before it with the error message set and \<open>loading\<close> false: the stored list
  and the filtered list are the ones stored before, and the effect derives the displayed
  list from the same stored list. The same holds when the failure arrives in any other
  state \<open>st'\<close>.
\<close>

theorem failed_fetch_keeps_repos:
  assumes "trim (username st) \<noteq> []" and "failingFetch result"
  shows "(\<exists>msg. fst (fetchGitHubPages token result st) = st\<lparr>error := Some msg, loading := False\<rparr> \<and>
                fetchSettle token result st' = st'\<lparr>error := Some msg, loading := False\<rparr>) \<and>
         repos (fst (fetchGitHubPages token result st)) = repos st \<and>
         filteredRepos (fst (fetchGitHubPages token result st)) = filteredRepos st \<and>
         filteredRepos (filterEffect (fst (fetchGitHubPages token result st))) =
           filterRepos (repos st) (searchTerm st)"
proof -
  from assms(2) obtain e where e: "tryBlock token result = Inl e"
    using tryBlock_failing by blast
  then have "fst (fetchGitHubPages token result st) =
             st\<lparr>error := Some (catchMessage e), loading := False\<rparr>"
    using assms(1) by (simp add: fetch_runs fetchSettle_failure)
  moreover have "fetchSettle token result st' = st'\<lparr>error := Some (catchMessage e), loading := False\<rparr>"
    using e by (rule fetchSettle_any_failure)
  ultimately show ?thesis
    by (auto simp: filterEffect_def)
qed

theorem failed_fetch_keeps_repos_witness:
  "repos (fst (fetchGitHubPages None (Rejects (ErrorObject ''Failed to fetch'')) sampleLoaded)) =
     [sampleBlog] \<and>
   repos (fst (fetchGitHubPages None
      (Resolves \<lparr>ok = False, status = 500, json = JsonArray []\<rparr>) sampleLoaded)) = [sampleBlog] \<and>
   repos (fst (fetchGitHubPages None
      (Resolves \<lparr>ok = True, status = 200, json = JsonThrows OtherValue\<rparr>) sampleLoaded)) = [sampleBlog]"
proof -
  have u: "trim (username sampleLoaded) \<noteq> []"
    by (simp add: sampleLoaded_def trim_octocat)
  have f1: "failingFetch (Rejects (ErrorObject ''Failed to fetch''))"
    and f2: "failingFetch (Resolves \<lparr>ok = False, status = 500, json = JsonArray []\<rparr>)"
    and f3: "failingFetch (Resolves \<lparr>ok = True, status = 200, json = JsonThrows OtherValue\<rparr>)"
    by (simp_all add: failingFetch_def)
  have r: "repos sampleLoaded = [sampleBlog]"
    by (simp add: sampleLoaded_def)
  show ?thesis
    using failed_fetch_keeps_repos [OF u f1, of None] failed_fetch_keeps_repos [OF u f2, of None]
      failed_fetch_keeps_repos [OF u f3, of None]
    by (simp add: r)
qed

text \<open>
  C7, as the code has it. The claim says that the value of the \<open>Authorization\<close> header
  is the token; for the token \<open>ghp_1\<close> the request that is sent carries the value
  \<open>token ghp_1\<close>, which is not the token.
\<close>

theorem authorization_header_counterexample:
  "sent (snd (fetchGitHubPages (Some ''ghp_1'') (Rejects OtherValue) initialState)) =
     Some (buildRequest ''octocat'' (Some ''ghp_1'')) \<and>
   headers (buildRequest ''octocat'' (Some ''ghp_1'')) ''Authorization'' = Some ''token ghp_1'' \<and>
   headers (buildRequest ''octocat'' (Some ''ghp_1'')) ''Authorization'' \<noteq> Some ''ghp_1''"
  by (simp add: fetchGitHubPages_def initialState_def trim_octocat buildRequest_def
      buildHeaders_def trim_ghp)

text \<open>
  C7, amended. A fetch with a username that is not blank sends one request. When the
  configured token is set and not blank, the request's \<open>Authorization\<close> header is the
  text \<open>token\<close>, a space, and the token without its leading and trailing white space;
  when the token is unset or blank, the request has no \<open>Authorization\<close> header.
\<close>

theorem authorization_header:
  assumes "trim (username st) \<noteq> []"
  shows "sent (snd (fetchGitHubPages token result st)) = Some (buildRequest (username st) token) \<and>
         headers (buildRequest (username st) token) ''Authorization'' =
           (case token of
              None \<Rightarrow> None
            | Some t \<Rightarrow> if list_all isWhiteSpace t then None else Some (''token '' @ trim t))"
proof -
  have "t \<noteq> [] \<and> trim t \<noteq> [] \<longleftrightarrow> \<not> list_all isWhiteSpace t" for t
    by (auto simp: trim_Nil_iff)
  then show ?thesis
    using assms by (simp add: fetch_runs buildRequest_def buildHeaders_def split: option.split)
qed

theorem authorization_header_witness:
  "headers (buildRequest ''octocat'' (Some '' ghp_1 '')) ''Authorization'' = Some ''token ghp_1'' \<and>
   headers (buildRequest ''octocat'' (Some ''  '')) ''Authorization'' = None \<and>
   headers (buildRequest ''octocat'' None) ''Authorization'' = None"
proof -
  have u: "trim (username initialState) \<noteq> []"
    by (simp add: initialState_def trim_octocat)
  have n: "username initialState = ''octocat''"
    by (simp add: initialState_def)
  have t: "trim '' ghp_1 '' = ''ghp_1''"
    by (simp add: trim_def isWhiteSpace_def)
  show ?thesis
    using authorization_header [OF u, of "Some '' ghp_1 ''"]
      authorization_header [OF u, of "Some ''  ''"] authorization_header [OF u, of None]
    by (simp add: n t isWhiteSpace_def)
qed

text \<open>
  C8, as the code has it. The claim says that the empty-state message names the username
  that was fetched. The message is built from the username field as it is when the
  component renders, and nothing records the username of the request. Here the request
  is sent for \<open>octocat\<close>, the field is changed to \<open>octokit\<close> while the request is
  under way, and the result has no repository with pages: the message names
  \<open>octokit\<close> and does not contain \<open>octocat\<close>.
\<close>

theorem empty_state_username_counterexample:
  "sent (snd (fetchGitHubPages None
      (Resolves \<lparr>ok = True, status = 200, json = JsonArray [sampleTool]\<rparr>) sampleLoaded)) =
     Some (buildRequest ''octocat'' None) \<and>
   url (buildRequest ''octocat'' None) = ''https://api.github.com/users/octocat/repos?per_page=100'' \<and>
   mainRegion (\<lambda>d. d) (filterEffect (fetchSettle None
      (Resolves \<lparr>ok = True, status = 200, json = JsonArray [sampleTool]\<rparr>)
      (setUsername ''octokit'' (fetchStart sampleLoaded)))) =
     EmptyState (emptyStateMessage ''octokit'') \<and>
   \<not> includes_js (emptyStateMessage ''octokit'') ''octocat''"
  by (simp add: fetchGitHubPages_def sampleLoaded_def trim_octocat buildRequest_def
      fetchSettle_def fetchStart_def setUsername_def tryBlock_def sampleTool_def
      filterEffect_def filterRepos_def mainRegion_def not_includes_octocat)

text \<open>
  C8, amended. When a fetch completes with a success response that has no repository with
  pages, and the username field is not empty in the state \<open>st'\<close> in which the result
  arrives, the region rendered after the filter effect is the empty-state message, and
  the message contains the current content of the username field. When nothing else
  happened between the start of the fetch and its result (\<open>fetchGitHubPages\<close> on a
  state \<open>st\<close> with a username that is not blank), that content is the username the
  request was sent for.
\<close>

theorem empty_state_after_fetch:
  assumes "ok response" and "json response = JsonArray allRepos"
    and "filter has_pages allRepos = []"
  shows "(username st' \<noteq> [] \<longrightarrow>
            mainRegion formatDate (filterEffect (fetchSettle token (Resolves response) st')) =
              EmptyState (emptyStateMessage (username st'))) \<and>
         includes_js (emptyStateMessage (username st')) (username st') \<and>
         (trim (username st) \<noteq> [] \<longrightarrow>
            sent (snd (fetchGitHubPages token (Resolves response) st)) =
              Some (buildRequest (username st) token) \<and>
            mainRegion formatDate (filterEffect (fst (fetchGitHubPages token (Resolves response) st))) =
              EmptyState (emptyStateMessage (username st)))"
proof -
  have t: "tryBlock token (Resolves response) = Inr []"
    using assms by (simp add: tryBlock_success)
  have settle: "username s \<noteq> [] \<Longrightarrow>
      mainRegion formatDate (filterEffect (fetchSettle token (Resolves response) s)) =
        EmptyState (emptyStateMessage (username s))" for s
    by (simp add: fetchSettle_any_success [OF t] mainRegion_def filterEffect_def filterRepos_def)
  have "username (fetchStart st) = username st"
    by (simp add: fetchStart_def)
  with settle [of "fetchStart st"] trim_nonblank_nonempty [of "username st"] settle [of st']
  show ?thesis
    by (simp add: fetch_runs includes_sublist sublist_emptyStateMessage)
qed

theorem empty_state_after_fetch_witness:
  "mainRegion (\<lambda>d. d) (filterEffect (fst (fetchGitHubPages None
      (Resolves \<lparr>ok = True, status = 200, json = JsonArray [sampleTool]\<rparr>) sampleLoaded))) =
     EmptyState
       (''No repositories with GitHub Pages were found for user '' @ [CHR 0x22] @ ''octocat'' @
        [CHR 0x22] @ ''. Make sure you have repositories with GitHub Pages enabled.'') \<and>
   mainRegion (\<lambda>d. d) (filterEffect (fetchSettle None
      (Resolves \<lparr>ok = True, status = 200, json = JsonArray [sampleTool]\<rparr>)
      (setUsername ''octokit'' (fetchStart sampleLoaded)))) =
     EmptyState
       (''No repositories with GitHub Pages were found for user '' @ [CHR 0x22] @ ''octokit'' @
        [CHR 0x22] @ ''. Make sure you have repositories with GitHub Pages enabled.'')"
proof -
  have u: "trim (username sampleLoaded) \<noteq> []"
    by (simp add: sampleLoaded_def trim_octocat)
  have n: "username sampleLoaded = ''octocat''"
    and n': "username (setUsername ''octokit'' (fetchStart sampleLoaded)) = ''octokit''"
    by (simp_all add: sampleLoaded_def setUsername_def fetchStart_def)
  have k: "ok \<lparr>ok = True, status = 200, json = JsonArray [sampleTool]\<rparr>"
    and j: "json \<lparr>ok = True, status = 200, json = JsonArray [sampleTool]\<rparr> = JsonArray [sampleTool]"
    by simp_all
  have f: "filter has_pages [sampleTool] = []"
    by (simp add: sampleTool_def)
  show ?thesis
    using empty_state_after_fetch
      [OF k j f, of "setUsername ''octokit'' (fetchStart sampleLoaded)" "\<lambda>d. d" None sampleLoaded] u
    by (simp add: n n' emptyStateMessage_def)
qed

text \<open>
  C9, as the code has it. The claim says that the region shows nothing whenever the
  stored list is not empty and the search term matches none of its entries. While a
  fetch is under way the first test of the chain, \<open>loading\<close>, decides: the region shows
  the placeholder grid. And the chain reads the filtered list, which the effect
  recomputes only after a render: in the render that follows the typing of \<open>zzz\<close> the
  filtered list is still the old one and the region is the card grid. The first state
  below is reached from the sample state by typing \<open>zzz\<close> into the search field and
  starting a fetch, the second by the typing alone, before the effect has run.
\<close>

theorem no_match_while_loading_counterexample:
  "repos (fetchStart (filterEffect (setSearchTerm ''zzz'' sampleLoaded))) = [sampleBlog] \<and>
   filterRepos [sampleBlog] ''zzz'' = [] \<and>
   filteredRepos (fetchStart (filterEffect (setSearchTerm ''zzz'' sampleLoaded))) = [] \<and>
   mainRegion (\<lambda>d. d) (fetchStart (filterEffect (setSearchTerm ''zzz'' sampleLoaded))) = Skeleton 6 \<and>
   mainRegion (\<lambda>d. d) (fetchStart (filterEffect (setSearchTerm ''zzz'' sampleLoaded))) \<noteq> Nothing \<and>
   repos (setSearchTerm ''zzz'' sampleLoaded) = [sampleBlog] \<and>
   searchTerm (setSearchTerm ''zzz'' sampleLoaded) = ''zzz'' \<and>
   mainRegion (\<lambda>d. d) (setSearchTerm ''zzz'' sampleLoaded) =
     Grid (countText 1) [renderCard (\<lambda>d. d) ''octocat'' sampleBlog]"
  by (simp add: mainRegion_def fetchStart_def filterEffect_def setSearchTerm_def sampleLoaded_def
      filterRepos_sampleBlog_zzz)

text \<open>
  C9, amended. When the stored list is not empty and the search term matches none of its
  entries, then once the filter effect has run, so that the filtered list is the one
  computed from the stored list and the search term, the region is neither the card grid
  nor the empty-state message: it is nothing when no fetch is under way, and the
  placeholder grid while one is.
\<close>

theorem no_match_region:
  assumes "repos st \<noteq> []" and "filterRepos (repos st) (searchTerm st) = []"
  shows "mainRegion formatDate (filterEffect st) = (if loading st then Skeleton 6 else Nothing)"
  using assms by (simp add: mainRegion_def filterEffect_def)

theorem no_match_region_witness:
  "mainRegion (\<lambda>d. d) (filterEffect (setSearchTerm ''zzz'' sampleLoaded)) = Nothing \<and>
   mainRegion (\<lambda>d. d) (filterEffect (fetchStart (setSearchTerm ''zzz'' sampleLoaded))) = Skeleton 6"
proof -
  have "repos (setSearchTerm ''zzz'' sampleLoaded) \<noteq> []"
    and "filterRepos (repos (setSearchTerm ''zzz'' sampleLoaded))
           (searchTerm (setSearchTerm ''zzz'' sampleLoaded)) = []"
    and "\<not> loading (setSearchTerm ''zzz'' sampleLoaded)"
    by (simp_all add: setSearchTerm_def sampleLoaded_def filterRepos_sampleBlog_zzz)
  moreover have "repos (fetchStart (setSearchTerm ''zzz'' sampleLoaded)) \<noteq> []"
    and "filterRepos (repos (fetchStart (setSearchTerm ''zzz'' sampleLoaded)))
           (searchTerm (fetchStart (setSearchTerm ''zzz'' sampleLoaded))) = []"
    and "loading (fetchStart (setSearchTerm ''zzz'' sampleLoaded))"
    by (simp_all add: fetchStart_def setSearchTerm_def sampleLoaded_def filterRepos_sampleBlog_zzz)
  ultimately show ?thesis
    using no_match_region [of "setSearchTerm ''zzz'' sampleLoaded" "\<lambda>d. d"]
      no_match_region [of "fetchStart (setSearchTerm ''zzz'' sampleLoaded)" "\<lambda>d. d"]
    by simp
qed

text \<open>
  C10. When the username is empty or consists of white space only, the fetch returns at
  once: the state is the state it was called on, no request is sent and nothing is logged.
\<close>

theorem blank_username_noop:
  assumes "list_all isWhiteSpace (username st)"
  shows "fetchGitHubPages token result st = (st, noEffects) \<and>
         sent (snd (fetchGitHubPages token result st)) = None"
  using assms by (simp add: fetchGitHubPages_def trim_Nil_iff noEffects_def)

theorem blank_username_noop_witness:
  "fetchGitHubPages None (Resolves \<lparr>ok = True, status = 200, json = JsonArray [sampleTool]\<rparr>)
     (setUsername ''  '' sampleLoaded) = (setUsername ''  '' sampleLoaded, noEffects) \<and>
   fetchGitHubPages None (Rejects OtherValue) (setUsername [] sampleLoaded) =
     (setUsername [] sampleLoaded, noEffects)"
proof -
  have "list_all isWhiteSpace (username (setUsername ''  '' sampleLoaded))"
    and "list_all isWhiteSpace (username (setUsername [] sampleLoaded))"
    by (simp_all add: setUsername_def isWhiteSpace_def)
  then show ?thesis
    using blank_username_noop by blast
qed

end
